theory Spec2Isabelle
  imports Main "HOL-Library.Sublist" "HOL-Library.AList"
begin

section \<open>Python strings\<close>

text \<open>
  A Python \<open>str\<close> is a sequence of Unicode code points; it is modelled as a list of
  natural numbers, one per code point, so that \<open>len\<close> is \<open>length\<close>. ASCII literals of
  the source are written with \<open>str\<close>.
\<close>

type_synonym pystr = "nat list"

definition str :: "string \<Rightarrow> pystr" where
  "str s = map of_char s"

text \<open>\<open>str.isspace\<close> on one code point: the white space of the Unicode database.\<close>

definition isspace :: "nat \<Rightarrow> bool" where
  "isspace c \<longleftrightarrow>
     (9 \<le> c \<and> c \<le> 13) \<or> (28 \<le> c \<and> c \<le> 32) \<or> c = 133 \<or> c = 160 \<or> c = 5760 \<or>
     (8192 \<le> c \<and> c \<le> 8202) \<or> c = 8232 \<or> c = 8233 \<or> c = 8239 \<or> c = 8287 \<or> c = 12288"

text \<open>
  \<open>s.find(sub, start)\<close>: the lowest index at or after \<open>start\<close> where \<open>sub\<close> occurs in
  \<open>s\<close>, and \<open>-1\<close> when there is none. \<open>find_aux sub s i\<close> scans the rest \<open>s\<close> of the
  text, which begins at index \<open>i\<close>.
\<close>

fun find_aux :: "'a list \<Rightarrow> 'a list \<Rightarrow> nat \<Rightarrow> int" where
  "find_aux sub [] i = (if sub = [] then int i else - 1)"
| "find_aux sub (x # xs) i = (if prefix sub (x # xs) then int i else find_aux sub xs (Suc i))"

definition slice_index :: "nat \<Rightarrow> int \<Rightarrow> nat" where
  \<comment> \<open>a slice bound: a negative one counts from the end, and both are clipped to the text\<close>
  "slice_index n k = (if k < 0 then nat (max 0 (int n + k)) else min (nat k) n)"

definition find_str :: "'a list \<Rightarrow> 'a list \<Rightarrow> int \<Rightarrow> int" where
  "find_str s sub start =
     (if int (length s) < start then - 1
      else find_aux sub (drop (slice_index (length s) start) s) (slice_index (length s) start))"

text \<open>\<open>sub in s\<close>.\<close>

definition contains :: "'a list \<Rightarrow> 'a list \<Rightarrow> bool" where
  "contains s sub \<longleftrightarrow> find_str s sub 0 \<noteq> - 1"

text \<open>\<open>s.startswith(p)\<close>.\<close>

definition startswith :: "'a list \<Rightarrow> 'a list \<Rightarrow> bool" where
  "startswith s p \<longleftrightarrow> prefix p s"

text \<open>\<open>s[i:j]\<close>.\<close>

definition slice_str :: "'a list \<Rightarrow> int \<Rightarrow> int \<Rightarrow> 'a list" where
  "slice_str s i j =
     (let lo = slice_index (length s) i; hi = slice_index (length s) j
      in take (hi - lo) (drop lo s))"

text \<open>\<open>s.strip()\<close>.\<close>

definition strip :: "pystr \<Rightarrow> pystr" where
  "strip s = rev (dropWhile isspace (rev (dropWhile isspace s)))"

text \<open>\<open>s.split()\<close>: the maximal runs of characters that are not white space.\<close>

fun split_aux :: "pystr \<Rightarrow> pystr \<Rightarrow> pystr list" where
  "split_aux [] w = (if w = [] then [] else [w])"
| "split_aux (c # cs) w =
     (if isspace c then (if w = [] then split_aux cs [] else w # split_aux cs [])
      else split_aux cs (w @ [c]))"

definition split_str :: "pystr \<Rightarrow> pystr list" where
  "split_str s = split_aux s []"

text \<open>\<open>sep.join(ws)\<close>.\<close>

fun join_str :: "pystr \<Rightarrow> pystr list \<Rightarrow> pystr" where
  "join_str sep [] = []"
| "join_str sep [w] = w"
| "join_str sep (w # v # ws) = w @ sep @ join_str sep (v # ws)"

section \<open>The section parser of \<open>generate_sales_copy\<close>\<close>

text \<open>
  A Python dict keeps its keys in insertion order: an association list, written with
  \<open>AList.update\<close>, which replaces the value of a key in place and appends a new key.
\<close>

type_synonym content_dict = "(pystr \<times> pystr) list"

definition platforms :: "pystr list" where
  "platforms = [str ''Facebook'', str ''X (Twitter)'', str ''LinkedIn'', str ''Pinterest'']"

text \<open>One round of the loop over \<open>platforms\<close>.\<close>

definition parse_platform :: "pystr \<Rightarrow> content_dict \<Rightarrow> pystr \<Rightarrow> content_dict" where
  "parse_platform raw_text content_dict platform =
     (let start_tag = str ''## '' @ platform;
          end_tag = (if platform \<noteq> str ''Pinterest'' then Some (str ''## '') else None);
          start_index = find_str raw_text start_tag 0
      in if start_index \<noteq> - 1 then
           let content_start = start_index + int (length start_tag);
               end_index = (case end_tag of
                              Some tag \<Rightarrow> find_str raw_text tag content_start
                            | None \<Rightarrow> int (length raw_text));
               copy = strip (slice_str raw_text content_start end_index)
           in AList.update platform copy content_dict
         else content_dict)"

definition parse_sections :: "pystr \<Rightarrow> content_dict" where
  "parse_sections raw_text = foldl (parse_platform raw_text) [] platforms"

section \<open>The outside world\<close>

text \<open>
  The three services the program calls are parameters of the model. Each helper returns,
  with its result, the trace of what it did: the record of its own call first, then the
  request it sent, if any. Log lines are not part of the trace.
\<close>

record product_details =
  url :: pystr
  title :: pystr
  description :: pystr

text \<open>
  The parsed page as far as the code queries it: the text of \<open>soup.find('h1')\<close> and of
  the first \<open>div\<close> whose class matches, each \<open>None\<close> when \<open>find\<close> returns \<open>None\<close>.
\<close>

record soup =
  h1 :: "pystr option"
  description_element :: "pystr option"

datatype get_result =
    Get_Request_Exception   \<comment> \<open>\<open>requests.get\<close> or \<open>raise_for_status\<close> raised\<close>
  | Get_Exception           \<comment> \<open>any other exception of the \<open>try\<close> body\<close>
  | Get_Ok soup

datatype gen_result =
    Api_Error pystr         \<comment> \<open>\<open>APIError\<close>, with its text\<close>
  | Gen_Exception           \<comment> \<open>any other exception of the \<open>try\<close> body\<close>
  | Gen_Text pystr          \<comment> \<open>\<open>response.text\<close>\<close>

text \<open>
  A decoded JSON value. A value whose \<open>str()\<close> is not modelled (a float, a boolean, a
  list, and a dict itself) carries that text.
\<close>

datatype json =
    JNone
  | JInt int
  | JStr pystr
  | JOther pystr
  | JDict "(pystr \<times> json) list" pystr

datatype post_result =
    Post_Request_Exception pystr   \<comment> \<open>\<open>RequestException\<close>, with its text\<close>
  | Post_Exception                 \<comment> \<open>any other exception of the \<open>try\<close> body\<close>
  | Post_Json json                 \<comment> \<open>\<open>response.json()\<close>\<close>

record payload =
  api_key :: pystr
  content :: pystr
  platform_ids :: "int list"
  schedule_time :: pystr
  media_urls :: "pystr list"

datatype event =
    Reply pystr                     \<comment> \<open>\<open>reply_text\<close>\<close>
  | Reply_Markdown pystr            \<comment> \<open>\<open>reply_text\<close> with \<open>parse_mode="Markdown"\<close>\<close>
  | Call_Scrape pystr
  | Http_Get pystr
  | Call_Generate product_details
  | Generate_Content pystr
  | Call_Distribute content_dict
  | Http_Post payload

record env =
  http_get :: "pystr \<Rightarrow> get_result"
  gemini_client :: "(pystr \<Rightarrow> gen_result) option"
  socialbu_api_key :: "pystr option"
  http_post :: "payload \<Rightarrow> post_result"

section \<open>The extractor\<close>

definition scrape_product_details :: "env \<Rightarrow> pystr \<Rightarrow> event list \<times> product_details option" where
  "scrape_product_details e u =
     ([Call_Scrape u, Http_Get u],
      case http_get e u of
        Get_Ok page \<Rightarrow>
          let title_text = (case h1 page of
                              Some t \<Rightarrow> strip t
                            | None \<Rightarrow> str ''Product Title Not Found'');
              found_text = (case description_element page of
                              Some t \<Rightarrow> strip t
                            | None \<Rightarrow> str ''Description Not Found'');
              description_text = slice_str (join_str (str '' '') (split_str found_text)) 0 2000
          in Some \<lparr>url = u, title = title_text, description = description_text\<rparr>
      | Get_Request_Exception \<Rightarrow> None
      | Get_Exception \<Rightarrow> None)"

section \<open>The copy generator\<close>

definition prompt :: "product_details \<Rightarrow> pystr" where
  "prompt product_details =
     str ''\<newline>    You are a professional content strategist. Your task is to generate platform-specific sales copy \<newline>    for a product based on the following details.\<newline>\<newline>    Product Title: ''
     @ title product_details
     @ str ''\<newline>    Product Description: ''
     @ description product_details
     @ str ''\<newline>    Original Link: ''
     @ url product_details
     @ str ''\<newline>\<newline>    Please generate four distinct pieces of content tailored for each platform: Facebook, X (Twitter), \<newline>    LinkedIn, and Pinterest.\<newline>    \<newline>    Format the response strictly using markdown headers for each platform:\<newline>\<newline>    ## Facebook\<newline>    [Content optimized for Facebook, including a strong CTA.]\<newline>\<newline>    ## X (Twitter)\<newline>    [Content optimized for X, short, punchy, and including relevant hashtags.]\<newline>\<newline>    ## LinkedIn\<newline>    [Content optimized for LinkedIn, professional, and focusing on business value.]\<newline>\<newline>    ## Pinterest\<newline>    [Content optimized for Pinterest, highly visual and description focused on a clear benefit.]\<newline>    ''"

text \<open>The result is the pair \<open>(text, dict)\<close> of the source, \<open>None\<close> for the dict on failure.\<close>

definition generate_sales_copy ::
  "env \<Rightarrow> product_details \<Rightarrow> event list \<times> pystr \<times> content_dict option" where
  "generate_sales_copy e product_details =
     (case gemini_client e of
        None \<Rightarrow>
          ([Call_Generate product_details],
           str ''Gemini client not initialized. Check API Key.'', None)
      | Some generate_content \<Rightarrow>
          ([Call_Generate product_details, Generate_Content (prompt product_details)],
           case generate_content (prompt product_details) of
             Gen_Text raw_text \<Rightarrow> (raw_text, Some (parse_sections raw_text))
           | Api_Error err \<Rightarrow>
               (str ''Gemini API Error: Could not generate content. '' @ err, None)
           | Gen_Exception \<Rightarrow>
               (str ''An unexpected error occurred during content generation.'', None)))"

section \<open>The distributor\<close>

text \<open>\<open>d.get(k, default)\<close>.\<close>

definition dict_get :: "('k \<times> 'v) list \<Rightarrow> 'k \<Rightarrow> 'v \<Rightarrow> 'v" where
  "dict_get d k dflt = (case map_of d k of Some v \<Rightarrow> v | None \<Rightarrow> dflt)"

text \<open>\<open>str()\<close> of an integer and of a decoded JSON value, as an f-string renders them.\<close>

fun digits :: "nat \<Rightarrow> pystr" where
  "digits n = (if n < 10 then [48 + n] else digits (n div 10) @ [48 + n mod 10])"

declare digits.simps [simp del]

definition str_int :: "int \<Rightarrow> pystr" where
  "str_int i = (if i < 0 then 45 # digits (nat (- i)) else digits (nat i))"

fun py_str :: "json \<Rightarrow> pystr" where
  "py_str JNone = str ''None''"
| "py_str (JInt i) = str_int i"
| "py_str (JStr s) = s"
| "py_str (JOther t) = t"
| "py_str (JDict d t) = t"

definition build_payload :: "pystr \<Rightarrow> content_dict \<Rightarrow> payload" where
  "build_payload key content_dict =
     \<lparr>api_key = key,
      content = str ''Multi-platform content generated by Content Forge Bot:\<newline>\<newline>''
        @ dict_get content_dict (str ''Facebook'') []
        @ str ''\<newline>\<newline>''
        @ dict_get content_dict (str ''X (Twitter)'') [],
      platform_ids = [123, 456, 789],
      schedule_time = str ''now'',
      media_urls = []\<rparr>"

text \<open>What the body of the \<open>try\<close> makes of the decoded response.\<close>

definition socialbu_message :: "json \<Rightarrow> pystr" where
  "socialbu_message socialbu_data =
     (case socialbu_data of
        JDict d _ \<Rightarrow>
          if map_of d (str ''status'') = Some (JStr (str ''success'')) then
            (case dict_get d (str ''data'') (JDict [] (str ''{}'')) of
               JDict dd _ \<Rightarrow>
                 str ''Content successfully distributed via SocialBu! (Post ID: ''
                 @ py_str (dict_get dd (str ''post_id'') JNone) @ str '').''
             | _ \<Rightarrow> str ''An unexpected error occurred during distribution.'')
          else
            str ''SocialBu API reported an error: ''
            @ py_str (dict_get d (str ''message'') (JStr (str ''Unknown error'')))
      | _ \<Rightarrow> str ''An unexpected error occurred during distribution.'')"

definition distribute_content_socialbu :: "env \<Rightarrow> content_dict \<Rightarrow> event list \<times> pystr" where
  "distribute_content_socialbu e content_dict =
     (case socialbu_api_key e of
        None \<Rightarrow>
          ([Call_Distribute content_dict],
           str ''SocialBu API Key is missing. Distribution failed.'')
      | Some key \<Rightarrow>
          if key = [] then
            ([Call_Distribute content_dict],
             str ''SocialBu API Key is missing. Distribution failed.'')
          else
            ([Call_Distribute content_dict, Http_Post (build_payload key content_dict)],
             case http_post e (build_payload key content_dict) of
               Post_Json socialbu_data \<Rightarrow> socialbu_message socialbu_data
             | Post_Request_Exception err \<Rightarrow>
                 str ''Distribution failed due to network/API error: '' @ err
             | Post_Exception \<Rightarrow>
                 str ''An unexpected error occurred during distribution.''))"

section \<open>The draft store and the handlers\<close>

text \<open>
  \<open>user_draft_content\<close>, a dict from user id to the generated dict. Storing is the
  assignment \<open>user_draft_content[user_id] = generated_dict\<close>; taking is the membership
  test followed by \<open>pop\<close>.
\<close>

type_synonym drafts = "int \<rightharpoonup> content_dict"

definition draft_put :: "drafts \<Rightarrow> int \<Rightarrow> content_dict \<Rightarrow> drafts" where
  "draft_put user_draft_content user_id generated_dict =
     user_draft_content(user_id \<mapsto> generated_dict)"

definition draft_take :: "drafts \<Rightarrow> int \<Rightarrow> content_dict option \<times> drafts" where
  "draft_take user_draft_content user_id =
     (case user_draft_content user_id of
        None \<Rightarrow> (None, user_draft_content)
      | Some stored \<Rightarrow> (Some stored, user_draft_content(user_id := None)))"

definition response_text :: "product_details \<Rightarrow> pystr \<Rightarrow> pystr" where
  "response_text product_details generated_markdown =
     [226, 339, 8230] @ str '' **Content Draft Ready!**\<newline>\<newline>''
     @ str ''**Product:** '' @ title product_details @ str ''\<newline>''
     @ str ''**Source:** '' @ url product_details @ str ''\<newline>\<newline>''
     @ str ''--- **Review Content** ---\<newline>\<newline>''
     @ generated_markdown @ str ''\<newline>\<newline>''
     @ str ''--- **Action** ---\<newline>\<newline>''
     @ str ''Review the content above. If it is ready to be published, use the command **`/approve`** to post it now!''"

text \<open>
  \<open>not product_details\<close> and \<open>not generated_dict\<close> hold of \<open>None\<close> and, for the
  dict, of the empty dict. Python's \<open>or\<close> reads its right operand only when the left one
  is false, so \<open>the\<close> is applied to a \<open>Some\<close> wherever its value matters.
\<close>

definition url_message :: "env \<Rightarrow> int \<Rightarrow> pystr \<Rightarrow> drafts \<Rightarrow> drafts \<times> event list" where
  "url_message e user_id u user_draft_content =
     (if \<not> startswith u (str ''http'') then
        (user_draft_content,
         [Reply (str ''That doesn't look like a valid URL. Please send a full product link (e.g., https://example.com/product).'')])
      else
        let started = [Reply ([240, 376, 8221] @ str '' URL received. Starting scraping and content generation with Gemini AI... This may take a moment.'')];
            (scraping, product_details) = scrape_product_details e u
        in if product_details = None \<or>
              contains (description (the product_details)) (str ''Description Not Found'')
           then
             (user_draft_content,
              started @ scraping @
              [Reply ([226, 338] @ str '' Failed to scrape product details from the URL. Please check the link or try a different one.'')])
           else
             let (generating, generated_markdown, generated_dict) =
                   generate_sales_copy e (the product_details)
             in if generated_dict = None \<or> the generated_dict = [] then
                  (user_draft_content,
                   started @ scraping @ generating @
                   [Reply ([226, 338] @ str '' Content generation failed: '' @ generated_markdown)])
                else
                  (draft_put user_draft_content user_id (the generated_dict),
                   started @ scraping @ generating @
                   [Reply_Markdown (response_text (the product_details) generated_markdown)]))"

definition approve_command :: "env \<Rightarrow> int \<Rightarrow> drafts \<Rightarrow> drafts \<times> event list" where
  "approve_command e user_id user_draft_content =
     (case draft_take user_draft_content user_id of
        (None, store) \<Rightarrow>
          (store,
           [Reply (str ''There is no content waiting for approval. Please send a new product URL first to generate content.'')])
      | (Some content_to_distribute, store) \<Rightarrow>
          let (distributing, distribution_result) =
                distribute_content_socialbu e content_to_distribute
          in (store,
              [Reply ([240, 376, 353, 8364] @ str '' Approval received! Initiating distribution to all social media platforms via SocialBu API...'')]
              @ distributing
              @ [Reply_Markdown (str ''**Distribution Status:**\<newline>\<newline>'' @ distribution_result)]))"

section \<open>Runs of the draft store, and fixed outside worlds\<close>

text \<open>
  The store starts empty (\<open>user_draft_content = {}\<close>). A run is a list of the two
  operations the handlers perform on it.
\<close>

definition user_draft_content_init :: drafts where
  "user_draft_content_init = Map.empty"

datatype store_op = Put int content_dict | Take int

fun run_op :: "drafts \<Rightarrow> store_op \<Rightarrow> drafts" where
  "run_op store (Put s m) = draft_put store s m"
| "run_op store (Take s) = snd (draft_take store s)"

text \<open>
  An outside world that answers every request of a kind in the same way, for the
  concrete runs below.
\<close>

definition fixed_world :: "get_result \<Rightarrow> gen_result \<Rightarrow> pystr option \<Rightarrow> post_result \<Rightarrow> env" where
  "fixed_world page generated key posted =
     \<lparr>http_get = (\<lambda>_. page), gemini_client = Some (\<lambda>_. generated),
      socialbu_api_key = key, http_post = (\<lambda>_. posted)\<rparr>"

section \<open>Properties of the string operations\<close>

lemma find_aux_skip:
  "(\<And>k. k < length y \<Longrightarrow> \<not> prefix t (drop k (y @ z))) \<Longrightarrow>
   find_aux t (y @ z) i = find_aux t z (i + length y)"
proof (induction y arbitrary: i)
  case Nil
  then show ?case by simp
next
  case (Cons a y)
  have "\<not> prefix t (a # y @ z)"
    using Cons.prems [of 0] by simp
  moreover have "find_aux t (y @ z) (Suc i) = find_aux t z (Suc i + length y)"
  proof (rule Cons.IH)
    fix k assume "k < length y"
    then show "\<not> prefix t (drop k (y @ z))"
      using Cons.prems [of "Suc k"] by simp
  qed
  ultimately show ?case by simp
qed

lemma find_aux_hit: "prefix t z \<Longrightarrow> find_aux t z i = int i"
  by (cases z) auto

lemma find_aux_none:
  "find_aux t s i = - 1 \<longleftrightarrow> (\<forall>k\<le>length s. \<not> prefix t (drop k s))"
proof (induction s arbitrary: i)
  case Nil
  then show ?case by simp
next
  case (Cons a s)
  show ?case
  proof (cases "prefix t (a # s)")
    case True
    then show ?thesis by force
  next
    case False
    have "(\<forall>k\<le>length (a # s). \<not> prefix t (drop k (a # s))) \<longleftrightarrow>
          (\<forall>k\<le>length s. \<not> prefix t (drop k s))"
    proof
      assume h: "\<forall>k\<le>length (a # s). \<not> prefix t (drop k (a # s))"
      show "\<forall>k\<le>length s. \<not> prefix t (drop k s)"
      proof (intro allI impI)
        fix k assume "k \<le> length s"
        then show "\<not> prefix t (drop k s)" using h [rule_format, of "Suc k"] by simp
      qed
    next
      assume h: "\<forall>k\<le>length s. \<not> prefix t (drop k s)"
      show "\<forall>k\<le>length (a # s). \<not> prefix t (drop k (a # s))"
      proof (intro allI impI)
        fix k assume "k \<le> length (a # s)"
        then show "\<not> prefix t (drop k (a # s))"
          using h False by (cases k) auto
      qed
    qed
    with False Cons.IH [of "Suc i"] show ?thesis by simp
  qed
qed

lemma find_str_0: "find_str s t 0 = find_aux t s 0"
  by (simp add: find_str_def slice_index_def)

lemma find_str_nat:
  "k \<le> length s \<Longrightarrow> find_str s t (int k) = find_aux t (drop k s) k"
  by (simp add: find_str_def slice_index_def)

lemma contains_iff: "contains s t \<longleftrightarrow> (\<exists>k\<le>length s. prefix t (drop k s))"
  unfolding contains_def find_str_0 find_aux_none by blast

lemma contains_mid: "contains (u @ t @ v) t"
  unfolding contains_iff by (rule exI [of _ "length u"]) simp

lemma slice_exact:
  "slice_str (u @ a @ v) (int (length u)) (int (length u + length a)) = a"
  by (simp add: slice_str_def slice_index_def)

lemma slice_to_end:
  "slice_str (u @ d) (int (length u)) (int (length (u @ d))) = d"
  by (simp add: slice_str_def slice_index_def)


lemma prefix_avoiding: "x \<notin> set n \<Longrightarrow> prefix n (y @ x # z) \<Longrightarrow> prefix n y"
proof (induction y arbitrary: n)
  case Nil
  then show ?case by (cases n) auto
next
  case (Cons a y)
  then show ?case by (cases n) auto
qed

lemma marker_no_straddle:
  assumes "35 \<notin> set n" and "prefix (str ''## '' @ n) (y @ str ''## '' @ z)" and "y \<noteq> []"
  shows "prefix (str ''## '' @ n) y"
proof -
  have m: "str ''## '' = [35, 35, 32]" by (simp add: str_def)
  consider a where "y = [a]" | a b where "y = [a, b]" | a b c y' where "y = a # b # c # y'"
    using \<open>y \<noteq> []\<close> by (cases y; cases "tl y"; cases "tl (tl y)") auto
  then show ?thesis
  proof cases
    case 1
    with assms(2) show ?thesis by (simp add: m)
  next
    case 2
    with assms(2) show ?thesis by (simp add: m)
  next
    case 3
    with assms(2) have abc: "a = 35" "b = 35" "c = 32" and p: "prefix n (y' @ 35 # 35 # 32 # z)"
      by (simp_all add: m)
    from prefix_avoiding [OF assms(1) p] have "prefix n y'" .
    with 3 abc show ?thesis by (simp add: m)
  qed
qed

lemma not_contains_longer: "\<not> contains x t \<Longrightarrow> \<not> contains x (t @ n)"
  unfolding contains_iff by (meson append_prefixD)

lemma skip_free:
  assumes "35 \<notin> set n" and "\<not> contains x (str ''## '' @ n)"
  shows "find_aux (str ''## '' @ n) (x @ str ''## '' @ z) i =
         find_aux (str ''## '' @ n) (str ''## '' @ z) (i + length x)"
proof (rule find_aux_skip)
  fix k assume k: "k < length x"
  show "\<not> prefix (str ''## '' @ n) (drop k (x @ str ''## '' @ z))"
  proof
    assume "prefix (str ''## '' @ n) (drop k (x @ str ''## '' @ z))"
    with k have "prefix (str ''## '' @ n) (drop k x @ str ''## '' @ z)" by simp
    moreover from k have "drop k x \<noteq> []" by simp
    ultimately have "prefix (str ''## '' @ n) (drop k x)"
      using marker_no_straddle [OF assms(1)] by blast
    with k have "contains x (str ''## '' @ n)"
      unfolding contains_iff by (intro exI [of _ k]) simp
    with assms(2) show False by contradiction
  qed
qed

lemma skip_free_marker:
  assumes "\<not> contains x (str ''## '')"
  shows "find_aux (str ''## '') (x @ str ''## '' @ z) i = int (i + length x)"
proof -
  have "find_aux (str ''## '' @ []) (x @ str ''## '' @ z) i =
        find_aux (str ''## '' @ []) (str ''## '' @ z) (i + length x)"
    by (rule skip_free) (use assms in simp_all)
  then show ?thesis by (simp add: find_aux_hit)
qed

lemma skip_header:
  assumes "35 \<notin> set q" and "p \<noteq> []" and "q \<noteq> []" and "hd p \<noteq> hd q"
  shows "find_aux (str ''## '' @ p) (str ''## '' @ q @ z) i =
         find_aux (str ''## '' @ p) z (i + length (str ''## '' @ q))"
proof -
  have m: "str ''## '' = [35, 35, 32]" by (simp add: str_def)
  have "find_aux (str ''## '' @ p) ((str ''## '' @ q) @ z) i =
        find_aux (str ''## '' @ p) z (i + length (str ''## '' @ q))"
  proof (rule find_aux_skip)
    fix k assume k: "k < length (str ''## '' @ q)"
    have "k < 3 \<or> (k = 3 + (k - 3) \<and> k - 3 < length q)"
      using k by (simp add: m) arith
    then consider "k = 0" | "k = 1" | "k = 2" | j where "k = 3 + j" "j < length q"
      by (elim disjE conjE) (arith, blast)
    then show "\<not> prefix (str ''## '' @ p) (drop k ((str ''## '' @ q) @ z))"
    proof cases
      case 1
      with assms show ?thesis by (cases p; cases q) (auto simp: m)
    next
      case 2
      then show ?thesis by (simp add: m)
    next
      case 3
      then show ?thesis by (simp add: m numeral_2_eq_2)
    next
      case 4
      have len: "length (str ''## '') = 3" by (simp add: str_def)
      from 4 have "drop k ((str ''## '' @ q) @ z) = drop j q @ z" by (simp add: len)
      moreover from 4 have "drop j q = q ! j # drop (Suc j) q"
        by (simp add: Cons_nth_drop_Suc)
      moreover from 4 assms(1) have "q ! j \<noteq> 35" by (metis nth_mem)
      ultimately show ?thesis by (simp add: m)
    qed
  qed
  then show ?thesis by simp
qed

section \<open>The section parser\<close>

lemma parse_platform_found:
  assumes "find_str raw (str ''## '' @ p) 0 = int i" and "p \<noteq> str ''Pinterest''"
  shows "parse_platform raw cd p =
         AList.update p
           (strip (slice_str raw (int (i + length (str ''## '' @ p)))
              (find_str raw (str ''## '') (int (i + length (str ''## '' @ p)))))) cd"
  using assms by (simp add: parse_platform_def Let_def)

lemma parse_platform_last:
  assumes "find_str raw (str ''## '' @ str ''Pinterest'') 0 = int i"
  shows "parse_platform raw cd (str ''Pinterest'') =
         AList.update (str ''Pinterest'')
           (strip (slice_str raw (int (i + length (str ''## '' @ str ''Pinterest'')))
              (int (length raw)))) cd"
  using assms by (simp add: parse_platform_def Let_def)

lemma parse_platform_missing:
  assumes "find_str raw (str ''## '' @ p) 0 = - 1"
  shows "parse_platform raw cd p = cd"
  using assms by (simp add: parse_platform_def Let_def)

lemma parse_sections_unfold:
  "parse_sections raw =
     parse_platform raw (parse_platform raw (parse_platform raw (parse_platform raw []
       (str ''Facebook'')) (str ''X (Twitter)'')) (str ''LinkedIn'')) (str ''Pinterest'')"
  by (simp add: parse_sections_def platforms_def)

lemma platform_names:
  "35 \<notin> set (str ''Facebook'')" "35 \<notin> set (str ''X (Twitter)'')"
  "35 \<notin> set (str ''LinkedIn'')" "35 \<notin> set (str ''Pinterest'')"
  "str ''Facebook'' \<noteq> []" "str ''X (Twitter)'' \<noteq> []"
  "str ''LinkedIn'' \<noteq> []" "str ''Pinterest'' \<noteq> []"
  "hd (str ''X (Twitter)'') \<noteq> hd (str ''Facebook'')"
  "hd (str ''LinkedIn'') \<noteq> hd (str ''Facebook'')"
  "hd (str ''LinkedIn'') \<noteq> hd (str ''X (Twitter)'')"
  "hd (str ''Pinterest'') \<noteq> hd (str ''Facebook'')"
  "hd (str ''Pinterest'') \<noteq> hd (str ''X (Twitter)'')"
  "hd (str ''Pinterest'') \<noteq> hd (str ''LinkedIn'')"
  by (simp_all add: str_def)

lemma platform_distinct:
  "str ''Facebook'' \<noteq> str ''Pinterest''" "str ''X (Twitter)'' \<noteq> str ''Pinterest''"
  "str ''LinkedIn'' \<noteq> str ''Pinterest''" "str ''Facebook'' \<noteq> str ''X (Twitter)''"
  "str ''Facebook'' \<noteq> str ''LinkedIn''" "str ''X (Twitter)'' \<noteq> str ''LinkedIn''"
  by (simp_all add: str_def)


lemma span_until_marker:
  assumes "\<not> contains a (str ''## '')"
  shows "slice_str (u @ a @ str ''## '' @ z) (int (length u))
           (find_str (u @ a @ str ''## '' @ z) (str ''## '') (int (length u))) = a"
proof -
  have "find_str (u @ a @ str ''## '' @ z) (str ''## '') (int (length u)) =
        find_aux (str ''## '') (drop (length u) (u @ a @ str ''## '' @ z)) (length u)"
    by (rule find_str_nat) simp
  also have "\<dots> = int (length u + length a)"
    using assms by (simp add: skip_free_marker)
  finally show ?thesis
    by (simp only: slice_exact)
qed

text \<open>
  C1, as the claim states it, fails: the text holds the four headers in order, and the
  body of Facebook is \<open>A ### sub\<close>. The search for \<open>## \<close> after the Facebook header
  stops inside \<open>###\<close>, which is no header, and Facebook parses to \<open>A #\<close>, not to its
  body.
\<close>

theorem parse_sections_marker_in_body:
  "parse_sections (str ''## Facebook\<newline>A ### sub\<newline>## X (Twitter)\<newline>B\<newline>## LinkedIn\<newline>C\<newline>## Pinterest\<newline>D'') =
     [(str ''Facebook'', str ''A #''), (str ''X (Twitter)'', str ''B''),
      (str ''LinkedIn'', str ''C''), (str ''Pinterest'', str ''D'')] \<and>
   str ''## Facebook\<newline>A ### sub\<newline>## X (Twitter)\<newline>B\<newline>## LinkedIn\<newline>C\<newline>## Pinterest\<newline>D'' =
     (str ''## '' @ str ''Facebook'') @ str ''\<newline>A ### sub\<newline>''
     @ (str ''## '' @ str ''X (Twitter)'') @ str ''\<newline>B\<newline>''
     @ (str ''## '' @ str ''LinkedIn'') @ str ''\<newline>C\<newline>''
     @ (str ''## '' @ str ''Pinterest'') @ str ''\<newline>D'' \<and>
   strip (str ''\<newline>A ### sub\<newline>'') = str ''A ### sub'' \<and>
   str ''A #'' \<noteq> str ''A ### sub''"
proof -
  define raw where "raw = str ''## Facebook\<newline>A ### sub\<newline>## X (Twitter)\<newline>B\<newline>## LinkedIn\<newline>C\<newline>## Pinterest\<newline>D''"
  have len: "length (str ''## '' @ str ''Facebook'') = 11"
    "length (str ''## '' @ str ''X (Twitter)'') = 14"
    "length (str ''## '' @ str ''LinkedIn'') = 11"
    "length (str ''## '' @ str ''Pinterest'') = 12"
    "length raw = 67"
    by (simp_all add: raw_def str_def)
  have i1: "find_str raw (str ''## '' @ str ''Facebook'') 0 = int 0"
    by (simp add: raw_def str_def find_str_def slice_index_def)
  have i2: "find_str raw (str ''## '' @ str ''X (Twitter)'') 0 = int 22"
    by (simp add: raw_def str_def find_str_def slice_index_def)
  have i3: "find_str raw (str ''## '' @ str ''LinkedIn'') 0 = int 39"
    by (simp add: raw_def str_def find_str_def slice_index_def)
  have i4: "find_str raw (str ''## '' @ str ''Pinterest'') 0 = int 53"
    by (simp add: raw_def str_def find_str_def slice_index_def)
  have e1: "find_str raw (str ''## '') (int (0 + 11)) = 15"
    by (simp add: raw_def str_def find_str_def slice_index_def)
  have e2: "find_str raw (str ''## '') (int (22 + 14)) = 39"
    by (simp add: raw_def str_def find_str_def slice_index_def)
  have e3: "find_str raw (str ''## '') (int (39 + 11)) = 53"
    by (simp add: raw_def str_def find_str_def slice_index_def)
  have s1: "strip (slice_str raw (int (0 + 11)) 15) = str ''A #''"
    by (simp add: raw_def str_def slice_str_def slice_index_def strip_def isspace_def)
  have s2: "strip (slice_str raw (int (22 + 14)) 39) = str ''B''"
    by (simp add: raw_def str_def slice_str_def slice_index_def strip_def isspace_def)
  have s3: "strip (slice_str raw (int (39 + 11)) 53) = str ''C''"
    by (simp add: raw_def str_def slice_str_def slice_index_def strip_def isspace_def)
  have s4: "strip (slice_str raw (int (53 + 12)) (int 67)) = str ''D''"
    by (simp add: raw_def str_def slice_str_def slice_index_def strip_def isspace_def)
  have "parse_sections raw =
     [(str ''Facebook'', str ''A #''), (str ''X (Twitter)'', str ''B''),
      (str ''LinkedIn'', str ''C''), (str ''Pinterest'', str ''D'')]"
    unfolding parse_sections_unfold
      parse_platform_found [OF i1 platform_distinct(1)]
      parse_platform_found [OF i2 platform_distinct(2)]
      parse_platform_found [OF i3 platform_distinct(3)]
      parse_platform_last [OF i4] len e1 e2 e3 s1 s2 s3 s4
    using platform_distinct by simp
  then have 1: "parse_sections (str ''## Facebook\<newline>A ### sub\<newline>## X (Twitter)\<newline>B\<newline>## LinkedIn\<newline>C\<newline>## Pinterest\<newline>D'') =
     [(str ''Facebook'', str ''A #''), (str ''X (Twitter)'', str ''B''),
      (str ''LinkedIn'', str ''C''), (str ''Pinterest'', str ''D'')]"
    by (simp only: raw_def)
  have 2: "str ''## Facebook\<newline>A ### sub\<newline>## X (Twitter)\<newline>B\<newline>## LinkedIn\<newline>C\<newline>## Pinterest\<newline>D'' =
     (str ''## '' @ str ''Facebook'') @ str ''\<newline>A ### sub\<newline>''
     @ (str ''## '' @ str ''X (Twitter)'') @ str ''\<newline>B\<newline>''
     @ (str ''## '' @ str ''LinkedIn'') @ str ''\<newline>C\<newline>''
     @ (str ''## '' @ str ''Pinterest'') @ str ''\<newline>D''"
    by (simp add: str_def)
  have 3: "strip (str ''\<newline>A ### sub\<newline>'') = str ''A ### sub''"
    by (simp add: strip_def isspace_def str_def)
  have 4: "str ''A #'' \<noteq> str ''A ### sub''"
    by (simp add: str_def)
  from 1 2 3 4 show ?thesis by blast
qed

text \<open>
  C1, amended. A text made of a lead-in that holds none of the four headers, the four
  headers in the order of \<open>platforms\<close> and a body after each, where the bodies of
  Facebook, X (Twitter) and LinkedIn hold no \<open>## \<close> anywhere, parses to the mapping from
  each platform to its body with the white space at both ends stripped. The span of each
  of these three platforms runs from the end of its header to the first \<open>## \<close> after it,
  which is then the start of the next header; the span of Pinterest runs to the end of the
  text, whatever it holds.
\<close>

theorem parse_sections_all_headers:
  assumes pre: "\<forall>p\<in>set platforms. \<not> contains pre (str ''## '' @ p)"
    and a: "\<not> contains a (str ''## '')"
    and b: "\<not> contains b (str ''## '')"
    and c: "\<not> contains c (str ''## '')"
  shows "parse_sections
           (pre @ (str ''## '' @ str ''Facebook'') @ a
                @ (str ''## '' @ str ''X (Twitter)'') @ b
                @ (str ''## '' @ str ''LinkedIn'') @ c
                @ (str ''## '' @ str ''Pinterest'') @ d) =
         [(str ''Facebook'', strip a), (str ''X (Twitter)'', strip b),
          (str ''LinkedIn'', strip c), (str ''Pinterest'', strip d)]"
proof -
  define raw where
    "raw = pre @ str ''## '' @ str ''Facebook'' @ a @ str ''## '' @ str ''X (Twitter)'' @ b
               @ str ''## '' @ str ''LinkedIn'' @ c @ str ''## '' @ str ''Pinterest'' @ d"
  define u1 where "u1 = pre @ str ''## '' @ str ''Facebook''"
  define u2 where "u2 = u1 @ a @ str ''## '' @ str ''X (Twitter)''"
  define u3 where "u3 = u2 @ b @ str ''## '' @ str ''LinkedIn''"
  define u4 where "u4 = u3 @ c @ str ''## '' @ str ''Pinterest''"
  have pre': "\<not> contains pre (str ''## '' @ str ''Facebook'')"
    "\<not> contains pre (str ''## '' @ str ''X (Twitter)'')"
    "\<not> contains pre (str ''## '' @ str ''LinkedIn'')"
    "\<not> contains pre (str ''## '' @ str ''Pinterest'')"
    using pre by (simp_all add: platforms_def)
  note free = pre' a [THEN not_contains_longer] b [THEN not_contains_longer]
    c [THEN not_contains_longer]
  have i1: "find_str raw (str ''## '' @ str ''Facebook'') 0 = int (length pre)"
    unfolding raw_def find_str_0
    by (simp add: skip_free skip_header find_aux_hit platform_names free)
  have i2: "find_str raw (str ''## '' @ str ''X (Twitter)'') 0 = int (length (u1 @ a))"
    unfolding raw_def find_str_0 u1_def
    by (simp add: skip_free skip_header find_aux_hit platform_names free)
  have i3: "find_str raw (str ''## '' @ str ''LinkedIn'') 0 = int (length (u2 @ b))"
    unfolding raw_def find_str_0 u1_def u2_def
    by (simp add: skip_free skip_header find_aux_hit platform_names free)
  have i4: "find_str raw (str ''## '' @ str ''Pinterest'') 0 = int (length (u3 @ c))"
    unfolding raw_def find_str_0 u1_def u2_def u3_def
    by (simp add: skip_free skip_header find_aux_hit platform_names free)
  have r1: "raw = u1 @ a @ str ''## '' @ (str ''X (Twitter)'' @ b @ str ''## '' @ str ''LinkedIn''
              @ c @ str ''## '' @ str ''Pinterest'' @ d)"
    by (simp add: raw_def u1_def)
  have r2: "raw = u2 @ b @ str ''## '' @ (str ''LinkedIn'' @ c @ str ''## '' @ str ''Pinterest'' @ d)"
    by (simp add: raw_def u1_def u2_def)
  have r3: "raw = u3 @ c @ str ''## '' @ (str ''Pinterest'' @ d)"
    by (simp add: raw_def u1_def u2_def u3_def)
  have r4: "raw = u4 @ d"
    by (simp add: raw_def u1_def u2_def u3_def u4_def)
  have l1: "length pre + length (str ''## '' @ str ''Facebook'') = length u1"
    by (simp add: u1_def)
  have l2: "length (u1 @ a) + length (str ''## '' @ str ''X (Twitter)'') = length u2"
    by (simp add: u2_def)
  have l3: "length (u2 @ b) + length (str ''## '' @ str ''LinkedIn'') = length u3"
    by (simp add: u3_def)
  have l4: "length (u3 @ c) + length (str ''## '' @ str ''Pinterest'') = length u4"
    by (simp add: u4_def)
  have s1: "slice_str raw (int (length u1)) (find_str raw (str ''## '') (int (length u1))) = a"
    unfolding r1 by (rule span_until_marker [OF a])
  have s2: "slice_str raw (int (length u2)) (find_str raw (str ''## '') (int (length u2))) = b"
    unfolding r2 by (rule span_until_marker [OF b])
  have s3: "slice_str raw (int (length u3)) (find_str raw (str ''## '') (int (length u3))) = c"
    unfolding r3 by (rule span_until_marker [OF c])
  have s4: "slice_str raw (int (length u4)) (int (length raw)) = d"
    unfolding r4 by (rule slice_to_end)
  have p1: "parse_platform raw cd (str ''Facebook'') = AList.update (str ''Facebook'') (strip a) cd"
    for cd
    by (simp only: parse_platform_found [OF i1 platform_distinct(1)] l1 s1)
  have p2: "parse_platform raw cd (str ''X (Twitter)'') =
            AList.update (str ''X (Twitter)'') (strip b) cd" for cd
    by (simp only: parse_platform_found [OF i2 platform_distinct(2)] l2 s2)
  have p3: "parse_platform raw cd (str ''LinkedIn'') =
            AList.update (str ''LinkedIn'') (strip c) cd" for cd
    by (simp only: parse_platform_found [OF i3 platform_distinct(3)] l3 s3)
  have p4: "parse_platform raw cd (str ''Pinterest'') =
            AList.update (str ''Pinterest'') (strip d) cd" for cd
    by (simp only: parse_platform_last [OF i4] l4 s4)
  have "parse_sections raw =
        [(str ''Facebook'', strip a), (str ''X (Twitter)'', strip b),
         (str ''LinkedIn'', strip c), (str ''Pinterest'', strip d)]"
    unfolding parse_sections_unfold p1 p2 p3 p4
    using platform_distinct by simp
  then show ?thesis by (simp add: raw_def)
qed

theorem parse_sections_all_headers_witness:
  "\<not> contains (str ''Draft:\<newline>'') (str ''## '' @ str ''Facebook'') \<and>
   \<not> contains (str ''Draft:\<newline>'') (str ''## '' @ str ''X (Twitter)'') \<and>
   \<not> contains (str ''Draft:\<newline>'') (str ''## '' @ str ''LinkedIn'') \<and>
   \<not> contains (str ''Draft:\<newline>'') (str ''## '' @ str ''Pinterest'') \<and>
   \<not> contains (str ''\<newline>A\<newline>'') (str ''## '') \<and>
   \<not> contains (str ''\<newline>B\<newline>'') (str ''## '') \<and>
   \<not> contains (str ''\<newline>C #1\<newline>'') (str ''## '') \<and>
   parse_sections (str ''Draft:\<newline>## Facebook\<newline>A\<newline>## X (Twitter)\<newline>B\<newline>## LinkedIn\<newline>C #1\<newline>## Pinterest D ## E '') =
     [(str ''Facebook'', str ''A''), (str ''X (Twitter)'', str ''B''),
      (str ''LinkedIn'', str ''C #1''), (str ''Pinterest'', str ''D ## E'')]"
proof -
  have h0: "\<forall>p\<in>set platforms. \<not> contains (str ''Draft:\<newline>'') (str ''## '' @ p)"
    by (simp add: platforms_def contains_def find_str_def slice_index_def str_def)
  have h1: "\<not> contains (str ''\<newline>A\<newline>'') (str ''## '')"
    by (simp add: contains_def find_str_def slice_index_def str_def)
  have h2: "\<not> contains (str ''\<newline>B\<newline>'') (str ''## '')"
    by (simp add: contains_def find_str_def slice_index_def str_def)
  have h3: "\<not> contains (str ''\<newline>C #1\<newline>'') (str ''## '')"
    by (simp add: contains_def find_str_def slice_index_def str_def)
  have e: "str ''Draft:\<newline>'' @ (str ''## '' @ str ''Facebook'') @ str ''\<newline>A\<newline>''
             @ (str ''## '' @ str ''X (Twitter)'') @ str ''\<newline>B\<newline>''
             @ (str ''## '' @ str ''LinkedIn'') @ str ''\<newline>C #1\<newline>''
             @ (str ''## '' @ str ''Pinterest'') @ str '' D ## E '' =
           str ''Draft:\<newline>## Facebook\<newline>A\<newline>## X (Twitter)\<newline>B\<newline>## LinkedIn\<newline>C #1\<newline>## Pinterest D ## E ''"
    by (simp add: str_def)
  have s: "strip (str ''\<newline>A\<newline>'') = str ''A''" "strip (str ''\<newline>B\<newline>'') = str ''B''"
    "strip (str ''\<newline>C #1\<newline>'') = str ''C #1''" "strip (str '' D ## E '') = str ''D ## E''"
    by (simp_all add: strip_def isspace_def str_def)
  show ?thesis
    using parse_sections_all_headers [OF h0 h1 h2 h3, of "str '' D ## E ''"] h0 h1 h2 h3
    unfolding e s by (simp add: platforms_def)
qed

text \<open>
  The keys of the parsed mapping are the platforms whose header occurs in the text: a
  missing header leaves its platform out and is no error.
\<close>

lemma update_key_set: "fst ` set (AList.update k v al) = insert k (fst ` set al)"
  by (induction al) auto

lemma parse_platform_keys:
  "fst ` set (parse_platform raw cd p) =
     (if find_str raw (str ''## '' @ p) 0 = - 1 then fst ` set cd
      else insert p (fst ` set cd))"
  by (simp add: parse_platform_def Let_def update_key_set)

lemma parse_sections_keys:
  "fst ` set (parse_sections raw) = {p \<in> set platforms. contains raw (str ''## '' @ p)}"
  unfolding parse_sections_unfold parse_platform_keys contains_def
  by (auto simp: platforms_def)

text \<open>
  C2. A text whose Pinterest header is missing and that ends with the body of LinkedIn:
  the key Pinterest is left out, Facebook and X (Twitter) parse to their bodies, but no
  \<open>## \<close> follows the LinkedIn header, \<open>find\<close> answers \<open>-1\<close>, and the slice
  \<open>raw_text[content_start:-1]\<close> loses the last character: LinkedIn parses to the empty
  text, not to its body \<open>C\<close>.
\<close>

theorem parse_sections_missing_pinterest:
  "parse_sections (str ''## Facebook\<newline>A\<newline>## X (Twitter)\<newline>B\<newline>## LinkedIn\<newline>C'') =
     [(str ''Facebook'', str ''A''), (str ''X (Twitter)'', str ''B''), (str ''LinkedIn'', [])]"
proof -
  define raw where "raw = str ''## Facebook\<newline>A\<newline>## X (Twitter)\<newline>B\<newline>## LinkedIn\<newline>C''"
  have len: "length (str ''## '' @ str ''Facebook'') = 11" "length (str ''## '' @ str ''X (Twitter)'') = 14"
    "length (str ''## '' @ str ''LinkedIn'') = 11"
    by (simp_all add: str_def)
  have i1: "find_str raw (str ''## '' @ str ''Facebook'') 0 = int 0"
    by (simp add: raw_def str_def find_str_def slice_index_def)
  have i2: "find_str raw (str ''## '' @ str ''X (Twitter)'') 0 = int 14"
    by (simp add: raw_def str_def find_str_def slice_index_def)
  have i3: "find_str raw (str ''## '' @ str ''LinkedIn'') 0 = int 31"
    by (simp add: raw_def str_def find_str_def slice_index_def)
  have i4: "find_str raw (str ''## '' @ str ''Pinterest'') 0 = - 1"
    by (simp add: raw_def str_def find_str_def slice_index_def)
  have e1: "find_str raw (str ''## '') (int (0 + 11)) = 14"
    by (simp add: raw_def str_def find_str_def slice_index_def)
  have e2: "find_str raw (str ''## '') (int (14 + 14)) = 31"
    by (simp add: raw_def str_def find_str_def slice_index_def)
  have e3: "find_str raw (str ''## '') (int (31 + 11)) = - 1"
    by (simp add: raw_def str_def find_str_def slice_index_def)
  have s1: "strip (slice_str raw (int (0 + 11)) 14) = str ''A''"
    by (simp add: raw_def str_def slice_str_def slice_index_def strip_def isspace_def)
  have s2: "strip (slice_str raw (int (14 + 14)) 31) = str ''B''"
    by (simp add: raw_def str_def slice_str_def slice_index_def strip_def isspace_def)
  have s3: "strip (slice_str raw (int (31 + 11)) (- 1)) = []"
    by (simp add: raw_def str_def slice_str_def slice_index_def strip_def isspace_def)
  have "parse_sections raw =
     [(str ''Facebook'', str ''A''), (str ''X (Twitter)'', str ''B''), (str ''LinkedIn'', [])]"
    unfolding parse_sections_unfold
      parse_platform_found [OF i1 platform_distinct(1)]
      parse_platform_found [OF i2 platform_distinct(2)]
      parse_platform_found [OF i3 platform_distinct(3)]
      parse_platform_missing [OF i4] len e1 e2 e3 s1 s2 s3
    using platform_distinct by simp
  then show ?thesis by (simp only: raw_def)
qed

section \<open>The draft store\<close>

lemma run_without_put:
  "(\<forall>m. Put s m \<notin> set ops) \<Longrightarrow> store s = None \<Longrightarrow> foldl run_op store ops s = None"
proof (induction ops arbitrary: store)
  case Nil
  then show ?case by simp
next
  case (Cons x ops)
  have "run_op store x s = None"
  proof (cases x)
    case (Put s' m)
    with Cons.prems have "s' \<noteq> s" by auto
    with Put Cons.prems(2) show ?thesis by (simp add: draft_put_def)
  next
    case (Take s')
    with Cons.prems(2) show ?thesis by (simp add: draft_take_def split: option.splits)
  qed
  with Cons show ?case by simp
qed

text \<open>
  C3. Two stores for one session followed by a take give the second mapping alone; a take
  for a session for which nothing was ever stored finds nothing; and a second take right
  after a take finds nothing.
\<close>

theorem draft_store_single_consumption:
  "fst (draft_take (draft_put (draft_put store s m1) s m2) s) = Some m2 \<and>
   ((\<forall>m. Put s m \<notin> set ops) \<longrightarrow>
      fst (draft_take (foldl run_op user_draft_content_init ops) s) = None) \<and>
   fst (draft_take (snd (draft_take store s)) s) = None"
proof (intro conjI impI)
  show "fst (draft_take (draft_put (draft_put store s m1) s m2) s) = Some m2"
    by (simp add: draft_take_def draft_put_def)
next
  assume "\<forall>m. Put s m \<notin> set ops"
  then have "foldl run_op user_draft_content_init ops s = None"
    by (rule run_without_put) (simp add: user_draft_content_init_def)
  then show "fst (draft_take (foldl run_op user_draft_content_init ops) s) = None"
    by (simp add: draft_take_def)
next
  show "fst (draft_take (snd (draft_take store s)) s) = None"
    by (simp add: draft_take_def split: option.splits)
qed

theorem draft_store_single_consumption_witness:
  "fst (draft_take (draft_put (draft_put user_draft_content_init 7 [(str ''Facebook'', str ''A'')]) 7
          [(str ''Facebook'', str ''B'')]) 7) = Some [(str ''Facebook'', str ''B'')] \<and>
   fst (draft_take (foldl run_op user_draft_content_init
          [Put 8 [(str ''Facebook'', str ''A'')], Take 8, Take 7]) 7) = None \<and>
   fst (draft_take (snd (draft_take
          (draft_put user_draft_content_init 7 [(str ''Facebook'', str ''A'')]) 7)) 7) = None"
  using draft_store_single_consumption
    [of "user_draft_content_init" 7 "[(str ''Facebook'', str ''A'')]" "[(str ''Facebook'', str ''B'')]"
        "[Put 8 [(str ''Facebook'', str ''A'')], Take 8, Take 7]"]
    draft_store_single_consumption
    [of "draft_put user_draft_content_init 7 [(str ''Facebook'', str ''A'')]" 7]
  by simp

section \<open>The handlers\<close>

text \<open>
  C4. With no draft stored for the session, the approval command only replies that nothing
  waits for approval: the distributor is not called and nothing is posted, and the store
  is as before.
\<close>

theorem approve_without_draft:
  assumes "user_draft_content user_id = None"
  shows "approve_command e user_id user_draft_content =
           (user_draft_content,
            [Reply (str ''There is no content waiting for approval. Please send a new product URL first to generate content.'')]) \<and>
         (\<forall>c. Call_Distribute c \<notin> set (snd (approve_command e user_id user_draft_content))) \<and>
         (\<forall>p. Http_Post p \<notin> set (snd (approve_command e user_id user_draft_content)))"
  using assms by (simp add: approve_command_def draft_take_def)

theorem approve_without_draft_witness:
  "approve_command (fixed_world Get_Exception Gen_Exception (Some (str ''key'')) Post_Exception) 7
     user_draft_content_init =
     (user_draft_content_init,
      [Reply (str ''There is no content waiting for approval. Please send a new product URL first to generate content.'')])"
proof -
  have "user_draft_content_init 7 = None" by (simp add: user_draft_content_init_def)
  from approve_without_draft [of user_draft_content_init 7, OF this] show ?thesis by blast
qed

text \<open>
  C9. A message that does not start with \<open>http\<close> is answered with the validation message
  alone: the extractor is not called, no page is requested, and the draft store, for this
  session and every other, is as before.
\<close>

theorem url_message_rejects_non_url:
  assumes "\<not> startswith u (str ''http'')"
  shows "url_message e user_id u user_draft_content =
           (user_draft_content,
            [Reply (str ''That doesn't look like a valid URL. Please send a full product link (e.g., https://example.com/product).'')]) \<and>
         (\<forall>x. Call_Scrape x \<notin> set (snd (url_message e user_id u user_draft_content))) \<and>
         (\<forall>x. Http_Get x \<notin> set (snd (url_message e user_id u user_draft_content)))"
  using assms by (simp add: url_message_def)

theorem url_message_rejects_non_url_witness:
  "\<not> startswith (str ''ftp://example.com'') (str ''http'') \<and>
   url_message (fixed_world Get_Exception Gen_Exception None Post_Exception) 7
     (str ''ftp://example.com'') (draft_put user_draft_content_init 7 [(str ''Facebook'', str ''A'')]) =
     (draft_put user_draft_content_init 7 [(str ''Facebook'', str ''A'')],
      [Reply (str ''That doesn't look like a valid URL. Please send a full product link (e.g., https://example.com/product).'')])"
proof -
  have h: "\<not> startswith (str ''ftp://example.com'') (str ''http'')"
    by (simp add: startswith_def str_def)
  from url_message_rejects_non_url [of "str ''ftp://example.com''", OF h] h show ?thesis by blast
qed

section \<open>Splitting at white space and joining\<close>



lemma split_aux_spaces:
  "(\<forall>c\<in>set ws. isspace c) \<Longrightarrow> split_aux ws w = (if w = [] then [] else [w])"
  by (induction ws arbitrary: w) auto

lemma split_aux_trailing:
  "(\<forall>c\<in>set ws. isspace c) \<Longrightarrow> split_aux (s @ ws) w = split_aux s w"
  by (induction s arbitrary: w) (auto simp: split_aux_spaces)

lemma split_aux_leading: "split_aux (dropWhile isspace s) [] = split_aux s []"
  by (induction s) auto

lemma split_str_strip: "split_str (strip t) = split_str t"
proof -
  define s where "s = dropWhile isspace t"
  have "s = rev (dropWhile isspace (rev s)) @ rev (takeWhile isspace (rev s))"
    by (metis rev_append rev_rev_ident takeWhile_dropWhile_id)
  moreover have "\<forall>c\<in>set (rev (takeWhile isspace (rev s))). isspace c"
    by (auto dest: set_takeWhileD)
  ultimately have "split_aux s [] = split_aux (rev (dropWhile isspace (rev s))) []"
    by (metis split_aux_trailing)
  then show ?thesis
    by (simp add: split_str_def strip_def s_def split_aux_leading)
qed







section \<open>The extractor\<close>






lemma slice_2000: "slice_str s 0 2000 = take 2000 s"
  by (simp add: slice_str_def slice_index_def min_def)

lemma str_space: "str '' '' = [32]"
  by (simp add: str_def)

lemma normalised_sentinel:
  "join_str [32] (split_str (str ''Description Not Found'')) = str ''Description Not Found''"
  by (simp add: split_str_def str_def isspace_def)

lemma scrape_product_details_ok:
  assumes "http_get e u = Get_Ok page"
  shows "snd (scrape_product_details e u) =
         Some \<lparr>url = u,
               title = (case h1 page of Some t \<Rightarrow> strip t
                        | None \<Rightarrow> str ''Product Title Not Found''),
               description = take 2000 (join_str [32] (split_str
                 (case description_element page of Some t \<Rightarrow> t
                  | None \<Rightarrow> str ''Description Not Found'')))\<rparr>"
  using assms
  by (simp add: scrape_product_details_def Let_def slice_2000 str_space split_str_strip
      split: option.splits)





section \<open>The distributor\<close>

lemma contains_prefix_part: "contains (t @ v) t"
  using contains_mid [of "[]" t v] by simp

lemma contains_suffix_part: "contains (u @ t) t"
  using contains_mid [of u t "[]"] by simp

text \<open>
  C7, as the claim states it, fails: with the bodies \<open>A\<close>, \<open>B\<close>, \<open>C\<close>, \<open>D\<close> the text of
  the payload holds the LinkedIn entry \<open>C\<close>, the first letter of \<open>Content\<close> in its fixed
  first line.
\<close>

theorem build_payload_holds_linkedin_entry:
  "contains
     (content (build_payload (str ''key'')
        [(str ''Facebook'', str ''A''), (str ''X (Twitter)'', str ''B''),
         (str ''LinkedIn'', str ''C''), (str ''Pinterest'', str ''D'')]))
     (dict_get [(str ''Facebook'', str ''A''), (str ''X (Twitter)'', str ''B''),
         (str ''LinkedIn'', str ''C''), (str ''Pinterest'', str ''D'')] (str ''LinkedIn'') [])"
proof -
  have "content (build_payload (str ''key'')
        [(str ''Facebook'', str ''A''), (str ''X (Twitter)'', str ''B''),
         (str ''LinkedIn'', str ''C''), (str ''Pinterest'', str ''D'')]) =
        str ''Multi-platform content generated by '' @ str ''C'' @ str ''ontent Forge Bot:\<newline>\<newline>A\<newline>\<newline>B''"
    by (simp add: build_payload_def dict_get_def str_def)
  moreover have "dict_get [(str ''Facebook'', str ''A''), (str ''X (Twitter)'', str ''B''),
         (str ''LinkedIn'', str ''C''), (str ''Pinterest'', str ''D'')] (str ''LinkedIn'') [] = str ''C''"
    by (simp add: dict_get_def str_def)
  ultimately show ?thesis by (simp only: contains_mid)
qed

text \<open>
  C7, amended. The text of the payload is the fixed first line, the Facebook entry, an
  empty line and the X (Twitter) entry, each entry empty when its key is absent; it holds
  both entries, and it is the same for two mappings that agree on these two keys, whatever
  their LinkedIn and Pinterest entries are. The profile identifiers are the fixed list, the
  schedule is \<open>now\<close>, the media list is empty, and with a credential this one payload is
  what the distributor posts.
\<close>

theorem build_payload_consolidated:
  "content (build_payload key cd) =
     str ''Multi-platform content generated by Content Forge Bot:\<newline>\<newline>''
     @ dict_get cd (str ''Facebook'') [] @ str ''\<newline>\<newline>'' @ dict_get cd (str ''X (Twitter)'') [] \<and>
   contains (content (build_payload key cd)) (dict_get cd (str ''Facebook'') []) \<and>
   contains (content (build_payload key cd)) (dict_get cd (str ''X (Twitter)'') []) \<and>
   (map_of cd' (str ''Facebook'') = map_of cd (str ''Facebook'') \<and>
    map_of cd' (str ''X (Twitter)'') = map_of cd (str ''X (Twitter)'') \<longrightarrow>
      build_payload key cd' = build_payload key cd) \<and>
   platform_ids (build_payload key cd) = [123, 456, 789] \<and>
   schedule_time (build_payload key cd) = str ''now'' \<and>
   media_urls (build_payload key cd) = [] \<and>
   (socialbu_api_key e = Some key \<and> key \<noteq> [] \<longrightarrow>
      fst (distribute_content_socialbu e cd) =
        [Call_Distribute cd, Http_Post (build_payload key cd)])"
proof -
  have c: "content (build_payload key cd) =
     str ''Multi-platform content generated by Content Forge Bot:\<newline>\<newline>''
     @ dict_get cd (str ''Facebook'') [] @ str ''\<newline>\<newline>'' @ dict_get cd (str ''X (Twitter)'') []"
    by (simp add: build_payload_def)
  have f: "contains (content (build_payload key cd)) (dict_get cd (str ''Facebook'') [])"
    unfolding c by (rule contains_mid)
  have x: "contains (content (build_payload key cd)) (dict_get cd (str ''X (Twitter)'') [])"
    unfolding c using contains_suffix_part
      [of "str ''Multi-platform content generated by Content Forge Bot:\<newline>\<newline>''
           @ dict_get cd (str ''Facebook'') [] @ str ''\<newline>\<newline>''"] by simp
  have i: "map_of cd' (str ''Facebook'') = map_of cd (str ''Facebook'') \<and>
    map_of cd' (str ''X (Twitter)'') = map_of cd (str ''X (Twitter)'') \<longrightarrow>
      build_payload key cd' = build_payload key cd"
    by (simp add: build_payload_def dict_get_def)
  have r: "platform_ids (build_payload key cd) = [123, 456, 789]"
    "schedule_time (build_payload key cd) = str ''now''"
    "media_urls (build_payload key cd) = []"
    by (simp_all add: build_payload_def)
  have p: "socialbu_api_key e = Some key \<and> key \<noteq> [] \<longrightarrow>
      fst (distribute_content_socialbu e cd) =
        [Call_Distribute cd, Http_Post (build_payload key cd)]"
    by (simp add: distribute_content_socialbu_def)
  from c f x i r p show ?thesis by blast
qed

theorem build_payload_consolidated_witness:
  "content (build_payload (str ''key'')
      [(str ''Facebook'', str ''A''), (str ''X (Twitter)'', str ''B''),
       (str ''LinkedIn'', str ''C''), (str ''Pinterest'', str ''D'')]) =
     str ''Multi-platform content generated by Content Forge Bot:\<newline>\<newline>A\<newline>\<newline>B'' \<and>
   build_payload (str ''key'')
      [(str ''Facebook'', str ''A''), (str ''X (Twitter)'', str ''B''),
       (str ''LinkedIn'', str ''other''), (str ''Pinterest'', str ''texts'')] =
   build_payload (str ''key'')
      [(str ''Facebook'', str ''A''), (str ''X (Twitter)'', str ''B''),
       (str ''LinkedIn'', str ''C''), (str ''Pinterest'', str ''D'')] \<and>
   fst (distribute_content_socialbu
          (fixed_world Get_Exception Gen_Exception (Some (str ''key'')) Post_Exception)
          [(str ''Facebook'', str ''A''), (str ''X (Twitter)'', str ''B''),
           (str ''LinkedIn'', str ''C''), (str ''Pinterest'', str ''D'')]) =
     [Call_Distribute [(str ''Facebook'', str ''A''), (str ''X (Twitter)'', str ''B''),
           (str ''LinkedIn'', str ''C''), (str ''Pinterest'', str ''D'')],
      Http_Post (build_payload (str ''key'')
          [(str ''Facebook'', str ''A''), (str ''X (Twitter)'', str ''B''),
           (str ''LinkedIn'', str ''C''), (str ''Pinterest'', str ''D'')])]"
proof -
  let ?cd = "[(str ''Facebook'', str ''A''), (str ''X (Twitter)'', str ''B''),
       (str ''LinkedIn'', str ''C''), (str ''Pinterest'', str ''D'')]"
  let ?cd' = "[(str ''Facebook'', str ''A''), (str ''X (Twitter)'', str ''B''),
       (str ''LinkedIn'', str ''other''), (str ''Pinterest'', str ''texts'')]"
  let ?w = "fixed_world Get_Exception Gen_Exception (Some (str ''key'')) Post_Exception"
  have g: "dict_get ?cd (str ''Facebook'') [] = str ''A''"
    "dict_get ?cd (str ''X (Twitter)'') [] = str ''B''"
    by (simp_all add: dict_get_def str_def)
  have m: "map_of ?cd' (str ''Facebook'') = map_of ?cd (str ''Facebook'')"
    "map_of ?cd' (str ''X (Twitter)'') = map_of ?cd (str ''X (Twitter)'')"
    by (simp_all add: str_def)
  have k: "socialbu_api_key ?w = Some (str ''key'')" "str ''key'' \<noteq> []"
    by (simp_all add: fixed_world_def str_def)
  have e: "str ''Multi-platform content generated by Content Forge Bot:\<newline>\<newline>''
     @ str ''A'' @ str ''\<newline>\<newline>'' @ str ''B'' =
     str ''Multi-platform content generated by Content Forge Bot:\<newline>\<newline>A\<newline>\<newline>B''"
    by (simp add: str_def)
  from build_payload_consolidated [of "str ''key''" ?cd ?cd' ?w] m k
  show ?thesis unfolding g e by blast
qed

lemma socialbu_message_first:
  "socialbu_message v \<noteq> [] \<and> hd (socialbu_message v) \<noteq> 68"
  by (simp add: socialbu_message_def str_def split: json.splits)

lemma startswith_hd: "startswith s p \<Longrightarrow> p \<noteq> [] \<Longrightarrow> s \<noteq> [] \<and> hd s = hd p"
  unfolding startswith_def by (cases p; cases s) auto

lemma network_prefix_first:
  "str ''Distribution failed due to network/API error: '' \<noteq> [] \<and>
   hd (str ''Distribution failed due to network/API error: '') = 68"
  by (simp add: str_def)

lemma socialbu_message_success:
  assumes "map_of d (str ''status'') = Some (JStr (str ''success''))"
    and "map_of d (str ''data'') = Some (JDict dd t')"
    and "map_of dd (str ''post_id'') = Some v"
  shows "socialbu_message (JDict d t) =
         str ''Content successfully distributed via SocialBu! (Post ID: '' @ py_str v @ str '').''"
  using assms by (simp add: socialbu_message_def dict_get_def)

lemma socialbu_message_error:
  assumes "map_of d (str ''status'') \<noteq> Some (JStr (str ''success''))"
  shows "socialbu_message (JDict d t) =
         str ''SocialBu API reported an error: ''
         @ py_str (dict_get d (str ''message'') (JStr (str ''Unknown error'')))"
  using assms by (simp add: socialbu_message_def)

text \<open>
  C8. The distributor returns a message in every case, and the message is never empty.
  Without a credential (unset or empty) it is the missing-key message and nothing is
  posted. With a credential: a decoded response with status \<open>success\<close> and a post
  identifier under \<open>data\<close> gives a message that holds the identifier; a decoded object with
  any other status gives a message that holds the text under \<open>message\<close> (\<open>Unknown error\<close>
  when there is none); a transport error gives the network-failure message with the text
  of the error, and no other outcome gives a message that starts as that one does.
\<close>

theorem distribute_content_socialbu_result:
  "snd (distribute_content_socialbu e cd) \<noteq> [] \<and>
   (socialbu_api_key e = None \<or> socialbu_api_key e = Some [] \<longrightarrow>
      distribute_content_socialbu e cd =
        ([Call_Distribute cd], str ''SocialBu API Key is missing. Distribution failed.'')) \<and>
   (socialbu_api_key e = Some key \<and> key \<noteq> [] \<longrightarrow>
      (http_post e (build_payload key cd) = Post_Json (JDict d t) \<and>
       map_of d (str ''status'') = Some (JStr (str ''success'')) \<and>
       map_of d (str ''data'') = Some (JDict dd t') \<and>
       map_of dd (str ''post_id'') = Some v \<longrightarrow>
         contains (snd (distribute_content_socialbu e cd)) (py_str v)) \<and>
      (http_post e (build_payload key cd) = Post_Json (JDict d t) \<and>
       map_of d (str ''status'') \<noteq> Some (JStr (str ''success'')) \<longrightarrow>
         contains (snd (distribute_content_socialbu e cd))
           (py_str (dict_get d (str ''message'') (JStr (str ''Unknown error''))))) \<and>
      (http_post e (build_payload key cd) = Post_Request_Exception err \<longrightarrow>
         snd (distribute_content_socialbu e cd) =
           str ''Distribution failed due to network/API error: '' @ err)) \<and>
   ((\<forall>k x. socialbu_api_key e = Some k \<and> k \<noteq> [] \<longrightarrow>
        http_post e (build_payload k cd) \<noteq> Post_Request_Exception x) \<longrightarrow>
      \<not> startswith (snd (distribute_content_socialbu e cd))
          (str ''Distribution failed due to network/API error: ''))"
proof -
  have missing: "socialbu_api_key e = None \<or> socialbu_api_key e = Some [] \<longrightarrow>
      distribute_content_socialbu e cd =
        ([Call_Distribute cd], str ''SocialBu API Key is missing. Distribution failed.'')"
    by (auto simp: distribute_content_socialbu_def)
  have posted: "snd (distribute_content_socialbu e cd) =
      (case http_post e (build_payload key cd) of
         Post_Json socialbu_data \<Rightarrow> socialbu_message socialbu_data
       | Post_Request_Exception x \<Rightarrow> str ''Distribution failed due to network/API error: '' @ x
       | Post_Exception \<Rightarrow> str ''An unexpected error occurred during distribution.'')"
    if "socialbu_api_key e = Some key" and "key \<noteq> []" for key
    using that by (simp add: distribute_content_socialbu_def)
  have nonempty: "snd (distribute_content_socialbu e cd) \<noteq> []"
  proof (cases "socialbu_api_key e = None \<or> socialbu_api_key e = Some []")
    case True
    with missing show ?thesis by (simp add: str_def)
  next
    case False
    then obtain k where k: "socialbu_api_key e = Some k" "k \<noteq> []" by auto
    show ?thesis
      unfolding posted [OF k] using socialbu_message_first
      by (simp add: str_def split: post_result.splits)
  qed
  have success: "contains (snd (distribute_content_socialbu e cd)) (py_str v)"
    if "socialbu_api_key e = Some key" "key \<noteq> []"
      "http_post e (build_payload key cd) = Post_Json (JDict d t)"
      "map_of d (str ''status'') = Some (JStr (str ''success''))"
      "map_of d (str ''data'') = Some (JDict dd t')"
      "map_of dd (str ''post_id'') = Some v"
    unfolding posted [OF that(1,2)] that(3) post_result.case
      socialbu_message_success [OF that(4,5,6)]
    by (rule contains_mid)
  have failure: "contains (snd (distribute_content_socialbu e cd))
           (py_str (dict_get d (str ''message'') (JStr (str ''Unknown error''))))"
    if "socialbu_api_key e = Some key" "key \<noteq> []"
      "http_post e (build_payload key cd) = Post_Json (JDict d t)"
      "map_of d (str ''status'') \<noteq> Some (JStr (str ''success''))"
    unfolding posted [OF that(1,2)] that(3) post_result.case
      socialbu_message_error [OF that(4)]
    by (rule contains_suffix_part)
  have transport: "snd (distribute_content_socialbu e cd) =
           str ''Distribution failed due to network/API error: '' @ err"
    if "socialbu_api_key e = Some key" "key \<noteq> []"
      "http_post e (build_payload key cd) = Post_Request_Exception err"
    unfolding posted [OF that(1,2)] that(3) by simp
  have distinct: "\<not> startswith (snd (distribute_content_socialbu e cd))
          (str ''Distribution failed due to network/API error: '')"
    if other: "\<forall>k x. socialbu_api_key e = Some k \<and> k \<noteq> [] \<longrightarrow>
        http_post e (build_payload k cd) \<noteq> Post_Request_Exception x"
  proof
    assume "startswith (snd (distribute_content_socialbu e cd))
          (str ''Distribution failed due to network/API error: '')"
    from startswith_hd [OF this] network_prefix_first
    have h: "hd (snd (distribute_content_socialbu e cd)) = 68" by simp
    show False
    proof (cases "socialbu_api_key e = None \<or> socialbu_api_key e = Some []")
      case True
      with missing h show False by (simp add: str_def)
    next
      case False
      then obtain k where k: "socialbu_api_key e = Some k" "k \<noteq> []" by auto
      with other have "\<forall>x. http_post e (build_payload k cd) \<noteq> Post_Request_Exception x"
        by blast
      with h show False
        unfolding posted [OF k] using socialbu_message_first
        by (auto simp: str_def split: post_result.splits)
    qed
  qed
  from nonempty missing success failure transport distinct show ?thesis by blast
qed

theorem distribute_content_socialbu_result_witness:
  "distribute_content_socialbu
     (fixed_world Get_Exception Gen_Exception None (Post_Request_Exception (str ''timed out'')))
     [(str ''Facebook'', str ''A'')] =
     ([Call_Distribute [(str ''Facebook'', str ''A'')]],
      str ''SocialBu API Key is missing. Distribution failed.'') \<and>
   contains (snd (distribute_content_socialbu
     (fixed_world Get_Exception Gen_Exception (Some (str ''key''))
        (Post_Json (JDict [(str ''status'', JStr (str ''success'')),
                           (str ''data'', JDict [(str ''post_id'', JInt 42)] (str ''{'post_id': 42}''))]
                      (str ''{...}''))))
     [(str ''Facebook'', str ''A'')])) (str ''42'') \<and>
   contains (snd (distribute_content_socialbu
     (fixed_world Get_Exception Gen_Exception (Some (str ''key''))
        (Post_Json (JDict [(str ''status'', JStr (str ''error'')),
                           (str ''message'', JStr (str ''bad id''))] (str ''{...}''))))
     [(str ''Facebook'', str ''A'')])) (str ''bad id'') \<and>
   snd (distribute_content_socialbu
     (fixed_world Get_Exception Gen_Exception (Some (str ''key''))
        (Post_Request_Exception (str ''timed out'')))
     [(str ''Facebook'', str ''A'')]) =
     str ''Distribution failed due to network/API error: timed out'' \<and>
   \<not> startswith (snd (distribute_content_socialbu
     (fixed_world Get_Exception Gen_Exception (Some (str ''key'')) Post_Exception)
     [(str ''Facebook'', str ''A'')]))
     (str ''Distribution failed due to network/API error: '')"
proof -
  let ?cd = "[(str ''Facebook'', str ''A'')]"
  let ?dd = "[(str ''post_id'', JInt 42)]"
  let ?d1 = "[(str ''status'', JStr (str ''success'')),
              (str ''data'', JDict ?dd (str ''{'post_id': 42}''))]"
  let ?d2 = "[(str ''status'', JStr (str ''error'')), (str ''message'', JStr (str ''bad id''))]"
  let ?w0 = "fixed_world Get_Exception Gen_Exception None (Post_Request_Exception (str ''timed out''))"
  let ?w1 = "fixed_world Get_Exception Gen_Exception (Some (str ''key''))
               (Post_Json (JDict ?d1 (str ''{...}'')))"
  let ?w2 = "fixed_world Get_Exception Gen_Exception (Some (str ''key''))
               (Post_Json (JDict ?d2 (str ''{...}'')))"
  let ?w3 = "fixed_world Get_Exception Gen_Exception (Some (str ''key''))
               (Post_Request_Exception (str ''timed out''))"
  have key: "str ''key'' \<noteq> []" by (simp add: str_def)
  have k0: "socialbu_api_key ?w0 = None" by (simp add: fixed_world_def)
  have k1: "socialbu_api_key ?w1 = Some (str ''key'')" by (simp add: fixed_world_def)
  have k2: "socialbu_api_key ?w2 = Some (str ''key'')" by (simp add: fixed_world_def)
  have k3: "socialbu_api_key ?w3 = Some (str ''key'')" by (simp add: fixed_world_def)
  have p1: "http_post ?w1 (build_payload (str ''key'') ?cd) = Post_Json (JDict ?d1 (str ''{...}''))"
    by (simp add: fixed_world_def)
  have p2: "http_post ?w2 (build_payload (str ''key'') ?cd) = Post_Json (JDict ?d2 (str ''{...}''))"
    by (simp add: fixed_world_def)
  have p3: "http_post ?w3 (build_payload (str ''key'') ?cd) = Post_Request_Exception (str ''timed out'')"
    by (simp add: fixed_world_def)
  have m1: "map_of ?d1 (str ''status'') = Some (JStr (str ''success''))"
    "map_of ?d1 (str ''data'') = Some (JDict ?dd (str ''{'post_id': 42}''))"
    "map_of ?dd (str ''post_id'') = Some (JInt 42)"
    by (simp_all add: str_def)
  have m2: "map_of ?d2 (str ''status'') \<noteq> Some (JStr (str ''success''))"
    by (simp add: str_def)
  have r1: "py_str (JInt 42) = str ''42''"
    by (simp add: str_int_def digits.simps [of 42] digits.simps [of 4] str_def)
  have r2: "py_str (dict_get ?d2 (str ''message'') (JStr (str ''Unknown error''))) = str ''bad id''"
    by (simp add: dict_get_def str_def)
  have e: "str ''Distribution failed due to network/API error: '' @ str ''timed out'' =
           str ''Distribution failed due to network/API error: timed out''"
    by (simp add: str_def)
  have a: "distribute_content_socialbu ?w0 ?cd =
     ([Call_Distribute ?cd], str ''SocialBu API Key is missing. Distribution failed.'')"
    using distribute_content_socialbu_result [where e = ?w0 and cd = ?cd] k0 by blast
  have b: "contains (snd (distribute_content_socialbu ?w1 ?cd)) (str ''42'')"
    using distribute_content_socialbu_result
      [where e = ?w1 and cd = ?cd and key = "str ''key''" and d = ?d1 and t = "str ''{...}''"
         and dd = ?dd and t' = "str ''{'post_id': 42}''" and v = "JInt 42"]
      k1 key p1 m1 unfolding r1 by blast
  have c: "contains (snd (distribute_content_socialbu ?w2 ?cd)) (str ''bad id'')"
    using distribute_content_socialbu_result
      [where e = ?w2 and cd = ?cd and key = "str ''key''" and d = ?d2 and t = "str ''{...}''"]
      k2 key p2 m2 unfolding r2 by blast
  have d: "snd (distribute_content_socialbu ?w3 ?cd) =
     str ''Distribution failed due to network/API error: timed out''"
    using distribute_content_socialbu_result
      [where e = ?w3 and cd = ?cd and key = "str ''key''" and err = "str ''timed out''"]
      k3 key p3 unfolding e by blast
  have f: "\<not> startswith (snd (distribute_content_socialbu
     (fixed_world Get_Exception Gen_Exception (Some (str ''key'')) Post_Exception) ?cd))
     (str ''Distribution failed due to network/API error: '')"
    using distribute_content_socialbu_result
      [where e = "fixed_world Get_Exception Gen_Exception (Some (str ''key'')) Post_Exception"
         and cd = ?cd]
    by (simp add: fixed_world_def)
  from a b c d f show ?thesis by blast
qed

section \<open>The URL handler\<close>

lemma scrape_product_details_trace:
  "fst (scrape_product_details e u) = [Call_Scrape u, Http_Get u]"
  by (simp add: scrape_product_details_def)

lemma generate_sales_copy_called:
  "fst (generate_sales_copy e pd) \<noteq> [] \<and> hd (fst (generate_sales_copy e pd)) = Call_Generate pd"
  by (simp add: generate_sales_copy_def split: option.splits)

lemma url_message_after_scrape:
  assumes "startswith u (str ''http'')"
    and "snd (scrape_product_details e u) = Some pd"
    and "\<not> contains (description pd) (str ''Description Not Found'')"
  shows "url_message e user_id u store =
     (if snd (snd (generate_sales_copy e pd)) = None \<or>
         the (snd (snd (generate_sales_copy e pd))) = []
      then
        (store,
         [Reply ([240, 376, 8221] @ str '' URL received. Starting scraping and content generation with Gemini AI... This may take a moment.''),
          Call_Scrape u, Http_Get u] @ fst (generate_sales_copy e pd) @
         [Reply ([226, 338] @ str '' Content generation failed: ''
                 @ fst (snd (generate_sales_copy e pd)))])
      else
        (draft_put store user_id (the (snd (snd (generate_sales_copy e pd)))),
         [Reply ([240, 376, 8221] @ str '' URL received. Starting scraping and content generation with Gemini AI... This may take a moment.''),
          Call_Scrape u, Http_Get u] @ fst (generate_sales_copy e pd) @
         [Reply_Markdown (response_text pd (fst (snd (generate_sales_copy e pd))))]))"
proof -
  have s: "scrape_product_details e u = ([Call_Scrape u, Http_Get u], Some pd)"
    using assms(2) scrape_product_details_trace [of e u]
    by (cases "scrape_product_details e u") simp
  show ?thesis
    using assms(1,3)
    by (simp add: url_message_def s Let_def split: prod.splits)
qed

lemma parse_sections_no_headers:
  assumes "\<forall>p\<in>set platforms. \<not> contains raw (str ''## '' @ p)"
  shows "parse_sections raw = []"
proof -
  from assms have "find_str raw (str ''## '' @ str ''Facebook'') 0 = - 1"
    "find_str raw (str ''## '' @ str ''X (Twitter)'') 0 = - 1"
    "find_str raw (str ''## '' @ str ''LinkedIn'') 0 = - 1"
    "find_str raw (str ''## '' @ str ''Pinterest'') 0 = - 1"
    by (simp_all add: platforms_def contains_def)
  then show ?thesis
    by (simp only: parse_sections_unfold parse_platform_missing)
qed

text \<open>
  C10. When the page is scraped, the generator is available and its answer is a text that
  holds none of the four headers, the generator returns that text with the empty mapping
  and no error; the handler then replies with the failure message followed by the whole
  text, and the draft store is as before.
\<close>

theorem url_message_text_without_headers:
  assumes "startswith u (str ''http'')"
    and "snd (scrape_product_details e u) = Some pd"
    and "\<not> contains (description pd) (str ''Description Not Found'')"
    and "gemini_client e = Some generate_content"
    and "generate_content (prompt pd) = Gen_Text raw"
    and "\<forall>p\<in>set platforms. \<not> contains raw (str ''## '' @ p)"
  shows "snd (generate_sales_copy e pd) = (raw, Some []) \<and>
         url_message e user_id u store =
           (store,
            [Reply ([240, 376, 8221] @ str '' URL received. Starting scraping and content generation with Gemini AI... This may take a moment.''),
             Call_Scrape u, Http_Get u, Call_Generate pd, Generate_Content (prompt pd),
             Reply ([226, 338] @ str '' Content generation failed: '' @ raw)])"
proof -
  have g: "generate_sales_copy e pd =
           ([Call_Generate pd, Generate_Content (prompt pd)], raw, Some [])"
    using assms(4,5) parse_sections_no_headers [OF assms(6)]
    by (simp add: generate_sales_copy_def)
  show ?thesis
    unfolding url_message_after_scrape [OF assms(1,2,3)] g by simp
qed

lemma widget_page_scraped:
  "snd (scrape_product_details
          (fixed_world (Get_Ok \<lparr>h1 = Some (str ''Widget''),
             description_element = Some (str ''Great widget'')\<rparr>) generated key posted)
          (str ''http://a.example'')) =
   Some \<lparr>url = str ''http://a.example'', title = str ''Widget'',
         description = str ''Great widget''\<rparr>"
proof -
  have "http_get (fixed_world (Get_Ok \<lparr>h1 = Some (str ''Widget''),
             description_element = Some (str ''Great widget'')\<rparr>) generated key posted)
          (str ''http://a.example'') =
        Get_Ok \<lparr>h1 = Some (str ''Widget''), description_element = Some (str ''Great widget'')\<rparr>"
    by (simp add: fixed_world_def)
  moreover have "take 2000 (join_str [32] (split_str (str ''Great widget''))) = str ''Great widget''"
    by (simp add: split_str_def str_def isspace_def)
  moreover have "strip (str ''Widget'') = str ''Widget''"
    by (simp add: strip_def str_def isspace_def)
  ultimately show ?thesis
    using scrape_product_details_ok by simp
qed

lemma widget_description_found:
  "\<not> contains (str ''Great widget'') (str ''Description Not Found'')"
  by (simp add: contains_def find_str_def slice_index_def str_def)

lemma example_url: "startswith (str ''http://a.example'') (str ''http'')"
  by (simp add: startswith_def str_def)

theorem url_message_text_without_headers_witness:
  "url_message
     (fixed_world (Get_Ok \<lparr>h1 = Some (str ''Widget''),
        description_element = Some (str ''Great widget'')\<rparr>)
        (Gen_Text (str ''Sorry, no copy.'')) None Post_Exception)
     7 (str ''http://a.example'') user_draft_content_init =
   (user_draft_content_init,
    [Reply ([240, 376, 8221] @ str '' URL received. Starting scraping and content generation with Gemini AI... This may take a moment.''),
     Call_Scrape (str ''http://a.example''), Http_Get (str ''http://a.example''),
     Call_Generate \<lparr>url = str ''http://a.example'', title = str ''Widget'',
       description = str ''Great widget''\<rparr>,
     Generate_Content (prompt \<lparr>url = str ''http://a.example'', title = str ''Widget'',
       description = str ''Great widget''\<rparr>),
     Reply ([226, 338] @ str '' Content generation failed: '' @ str ''Sorry, no copy.'')])"
proof -
  let ?w = "fixed_world (Get_Ok \<lparr>h1 = Some (str ''Widget''),
        description_element = Some (str ''Great widget'')\<rparr>)
        (Gen_Text (str ''Sorry, no copy.'')) None Post_Exception"
  let ?pd = "\<lparr>url = str ''http://a.example'', title = str ''Widget'',
       description = str ''Great widget''\<rparr>"
  have d: "\<not> contains (description ?pd) (str ''Description Not Found'')"
    using widget_description_found by simp
  have c: "gemini_client ?w = Some (\<lambda>_. Gen_Text (str ''Sorry, no copy.''))"
    by (simp add: fixed_world_def)
  have t: "(\<lambda>_. Gen_Text (str ''Sorry, no copy.'')) (prompt ?pd) = Gen_Text (str ''Sorry, no copy.'')"
    by simp
  have h: "\<forall>p\<in>set platforms. \<not> contains (str ''Sorry, no copy.'') (str ''## '' @ p)"
    by (simp add: platforms_def contains_def find_str_def slice_index_def str_def)
  from url_message_text_without_headers [OF example_url widget_page_scraped d c t h]
  show ?thesis by blast
qed

section \<open>Generation and the stored draft\<close>

text \<open>
  C5, as the claim states it, fails: the page has a heading and no matching \<open>div\<close>, the
  extractor returns product details, with the sentinel description, and the handler
  replies that scraping failed without calling the generator.
\<close>

theorem url_message_sentinel_description:
  "snd (scrape_product_details
          (fixed_world (Get_Ok \<lparr>h1 = Some (str ''Widget''), description_element = None\<rparr>)
             (Gen_Text (str ''## Facebook A'')) None Post_Exception)
          (str ''http://a.example'')) =
     Some \<lparr>url = str ''http://a.example'', title = str ''Widget'',
           description = str ''Description Not Found''\<rparr> \<and>
   url_message
     (fixed_world (Get_Ok \<lparr>h1 = Some (str ''Widget''), description_element = None\<rparr>)
        (Gen_Text (str ''## Facebook A'')) None Post_Exception)
     7 (str ''http://a.example'') user_draft_content_init =
   (user_draft_content_init,
    [Reply ([240, 376, 8221] @ str '' URL received. Starting scraping and content generation with Gemini AI... This may take a moment.''),
     Call_Scrape (str ''http://a.example''), Http_Get (str ''http://a.example''),
     Reply ([226, 338] @ str '' Failed to scrape product details from the URL. Please check the link or try a different one.'')])"
proof -
  let ?w = "fixed_world (Get_Ok \<lparr>h1 = Some (str ''Widget''), description_element = None\<rparr>)
             (Gen_Text (str ''## Facebook A'')) None Post_Exception"
  let ?u = "str ''http://a.example''"
  let ?pd = "\<lparr>url = ?u, title = str ''Widget'', description = str ''Description Not Found''\<rparr>"
  have "http_get ?w ?u = Get_Ok \<lparr>h1 = Some (str ''Widget''), description_element = None\<rparr>"
    by (simp add: fixed_world_def)
  moreover have "take 2000 (str ''Description Not Found'') = str ''Description Not Found''"
    by (simp add: str_def)
  moreover have "strip (str ''Widget'') = str ''Widget''"
    by (simp add: strip_def str_def isspace_def)
  ultimately have s: "snd (scrape_product_details ?w ?u) = Some ?pd"
    using scrape_product_details_ok normalised_sentinel by simp
  then have s': "scrape_product_details ?w ?u = ([Call_Scrape ?u, Http_Get ?u], Some ?pd)"
    using scrape_product_details_trace [of ?w ?u]
    by (cases "scrape_product_details ?w ?u") simp
  have c: "contains (description ?pd) (str ''Description Not Found'')"
    using contains_prefix_part [of "str ''Description Not Found''" "[]"] by simp
  have "url_message ?w 7 ?u user_draft_content_init =
   (user_draft_content_init,
    [Reply ([240, 376, 8221] @ str '' URL received. Starting scraping and content generation with Gemini AI... This may take a moment.''),
     Call_Scrape ?u, Http_Get ?u,
     Reply ([226, 338] @ str '' Failed to scrape product details from the URL. Please check the link or try a different one.'')])"
    using example_url c by (simp add: url_message_def s' Let_def)
  with s show ?thesis by blast
qed

lemma response_text_holds:
  "contains (response_text pd md) md \<and> contains (response_text pd md) (str ''/approve'')"
proof -
  have "response_text pd md =
        ([226, 339, 8230] @ str '' **Content Draft Ready!**\<newline>\<newline>''
         @ str ''**Product:** '' @ title pd @ str ''\<newline>''
         @ str ''**Source:** '' @ url pd @ str ''\<newline>\<newline>''
         @ str ''--- **Review Content** ---\<newline>\<newline>'') @ md @
        (str ''\<newline>\<newline>'' @ str ''--- **Action** ---\<newline>\<newline>''
         @ str ''Review the content above. If it is ready to be published, use the command **`/approve`** to post it now!'')"
    by (simp add: response_text_def)
  then have 1: "contains (response_text pd md) md"
    by (simp only: contains_mid)
  have "response_text pd md =
        ([226, 339, 8230] @ str '' **Content Draft Ready!**\<newline>\<newline>''
         @ str ''**Product:** '' @ title pd @ str ''\<newline>''
         @ str ''**Source:** '' @ url pd @ str ''\<newline>\<newline>''
         @ str ''--- **Review Content** ---\<newline>\<newline>'' @ md
         @ str ''\<newline>\<newline>'' @ str ''--- **Action** ---\<newline>\<newline>''
         @ str ''Review the content above. If it is ready to be published, use the command **`'')
        @ str ''/approve'' @ str ''`** to post it now!''"
    by (simp add: response_text_def str_def)
  then have 2: "contains (response_text pd md) (str ''/approve'')"
    by (simp only: contains_mid)
  from 1 2 show ?thesis ..
qed

text \<open>
  C5, amended. For a message that starts with \<open>http\<close> on which the extractor returns
  product details whose description does not hold \<open>Description Not Found\<close>, the handler
  calls the generator on these details; and when the generator returns a text with a
  mapping that is not empty, the handler stores the mapping as the draft of the session
  and ends with the reply that shows the product, the whole generated text and the prompt
  to approve.
\<close>

theorem url_message_generates_and_stores:
  assumes "startswith u (str ''http'')"
    and "snd (scrape_product_details e u) = Some pd"
    and "\<not> contains (description pd) (str ''Description Not Found'')"
  shows "Call_Generate pd \<in> set (snd (url_message e user_id u store)) \<and>
         (snd (generate_sales_copy e pd) = (md, Some gd) \<and> gd \<noteq> [] \<longrightarrow>
            url_message e user_id u store =
              (store(user_id \<mapsto> gd),
               [Reply ([240, 376, 8221] @ str '' URL received. Starting scraping and content generation with Gemini AI... This may take a moment.''),
                Call_Scrape u, Http_Get u] @ fst (generate_sales_copy e pd) @
               [Reply_Markdown (response_text pd md)]) \<and>
            contains (response_text pd md) md \<and>
            contains (response_text pd md) (str ''/approve''))"
proof -
  from generate_sales_copy_called [of e pd]
  have "Call_Generate pd \<in> set (fst (generate_sales_copy e pd))"
    by (metis list.set_sel(1))
  then have 1: "Call_Generate pd \<in> set (snd (url_message e user_id u store))"
    unfolding url_message_after_scrape [OF assms] by simp
  have 2: "snd (generate_sales_copy e pd) = (md, Some gd) \<and> gd \<noteq> [] \<longrightarrow>
            url_message e user_id u store =
              (store(user_id \<mapsto> gd),
               [Reply ([240, 376, 8221] @ str '' URL received. Starting scraping and content generation with Gemini AI... This may take a moment.''),
                Call_Scrape u, Http_Get u] @ fst (generate_sales_copy e pd) @
               [Reply_Markdown (response_text pd md)])"
    unfolding url_message_after_scrape [OF assms] by (simp add: draft_put_def)
  from 1 2 response_text_holds [of pd md] show ?thesis by blast
qed

lemma pinterest_only_parsed:
  "parse_sections (str ''## Pinterest\<newline>Pin it'') = [(str ''Pinterest'', str ''Pin it'')]"
proof -
  define raw where "raw = str ''## Pinterest\<newline>Pin it''"
  have i1: "find_str raw (str ''## '' @ str ''Facebook'') 0 = - 1"
    by (simp add: raw_def str_def find_str_def slice_index_def)
  have i2: "find_str raw (str ''## '' @ str ''X (Twitter)'') 0 = - 1"
    by (simp add: raw_def str_def find_str_def slice_index_def)
  have i3: "find_str raw (str ''## '' @ str ''LinkedIn'') 0 = - 1"
    by (simp add: raw_def str_def find_str_def slice_index_def)
  have i4: "find_str raw (str ''## '' @ str ''Pinterest'') 0 = int 0"
    by (simp add: raw_def str_def find_str_def slice_index_def)
  have s4: "strip (slice_str raw (int (0 + length (str ''## '' @ str ''Pinterest'')))
              (int (length raw))) = str ''Pin it''"
    by (simp add: raw_def str_def slice_str_def slice_index_def strip_def isspace_def)
  have "parse_sections raw = [(str ''Pinterest'', str ''Pin it'')]"
    unfolding parse_sections_unfold parse_platform_missing [OF i1] parse_platform_missing [OF i2]
      parse_platform_missing [OF i3] parse_platform_last [OF i4] s4
    by simp
  then show ?thesis by (simp only: raw_def)
qed

theorem url_message_generates_and_stores_witness:
  "url_message
     (fixed_world (Get_Ok \<lparr>h1 = Some (str ''Widget''),
        description_element = Some (str ''Great widget'')\<rparr>)
        (Gen_Text (str ''## Pinterest\<newline>Pin it'')) None Post_Exception)
     7 (str ''http://a.example'') user_draft_content_init =
   (user_draft_content_init(7 \<mapsto> [(str ''Pinterest'', str ''Pin it'')]),
    [Reply ([240, 376, 8221] @ str '' URL received. Starting scraping and content generation with Gemini AI... This may take a moment.''),
     Call_Scrape (str ''http://a.example''), Http_Get (str ''http://a.example''),
     Call_Generate \<lparr>url = str ''http://a.example'', title = str ''Widget'',
       description = str ''Great widget''\<rparr>,
     Generate_Content (prompt \<lparr>url = str ''http://a.example'', title = str ''Widget'',
       description = str ''Great widget''\<rparr>),
     Reply_Markdown (response_text \<lparr>url = str ''http://a.example'', title = str ''Widget'',
       description = str ''Great widget''\<rparr> (str ''## Pinterest\<newline>Pin it''))])"
proof -
  let ?w = "fixed_world (Get_Ok \<lparr>h1 = Some (str ''Widget''),
        description_element = Some (str ''Great widget'')\<rparr>)
        (Gen_Text (str ''## Pinterest\<newline>Pin it'')) None Post_Exception"
  let ?pd = "\<lparr>url = str ''http://a.example'', title = str ''Widget'',
       description = str ''Great widget''\<rparr>"
  have d: "\<not> contains (description ?pd) (str ''Description Not Found'')"
    using widget_description_found by simp
  have g: "generate_sales_copy ?w ?pd =
      ([Call_Generate ?pd, Generate_Content (prompt ?pd)],
       str ''## Pinterest\<newline>Pin it'', Some [(str ''Pinterest'', str ''Pin it'')])"
    by (simp add: generate_sales_copy_def fixed_world_def pinterest_only_parsed)
  then have g': "snd (generate_sales_copy ?w ?pd) =
      (str ''## Pinterest\<newline>Pin it'', Some [(str ''Pinterest'', str ''Pin it'')])"
    by simp
  from url_message_generates_and_stores
      [OF example_url
          widget_page_scraped [of "Gen_Text (str ''## Pinterest\<newline>Pin it'')" None Post_Exception] d,
       of 7 user_draft_content_init "str ''## Pinterest\<newline>Pin it''"
         "[(str ''Pinterest'', str ''Pin it'')]"] g'
  show ?thesis by (simp add: g)
qed

end
